theory Spec2Isabelle
  imports Complex_Main "HOL-Library.Word"
begin

section \<open>safe\_printf: a type-checked front end to printf (src/safe\_printf/main.cpp)\<close>

text \<open>
  The program has three parts: the overloads of \<^verbatim>\<open>ValidateArgument\<close>, which turn each
  argument of a call into a long, a double or a pointer; the two overloads of
  \<^verbatim>\<open>check_printf\<close>, which walk the format string and test the static type of the
  argument of each directive; and \<^verbatim>\<open>safe_printf\<close>, which runs the check and then calls
  the C library's printf on the same converted arguments.

  Integer types have the widths of the LP64 data model on x86-64 (Linux or macOS with gcc
  or clang): char 8 bits and signed, short and char16\_t 16, int, wchar\_t and char32\_t
  32, long and long long 64, all in two's complement.
\<close>

subsection \<open>Types and the type traits the code asks\<close>

datatype cxx_type =
    T_bool | T_char | T_signed_char | T_unsigned_char
  | T_wchar_t | T_char16_t | T_char32_t
  | T_short | T_unsigned_short | T_int | T_unsigned_int
  | T_long | T_unsigned_long | T_long_long | T_unsigned_long_long
  | T_float | T_double | T_long_double
  | T_void | T_pointer cxx_type | T_std_string

text \<open>\<^verbatim>\<open>std::is_floating_point\<close>, \<^verbatim>\<open>std::is_pointer\<close>, \<^verbatim>\<open>std::is_object\<close> and
  \<^verbatim>\<open>std::is_integral\<close>. Qualifiers (const, volatile) do not change any of them and are
  not modelled.\<close>

fun is_floating_point :: "cxx_type \<Rightarrow> bool" where
  "is_floating_point T_float = True"
| "is_floating_point T_double = True"
| "is_floating_point T_long_double = True"
| "is_floating_point _ = False"

fun is_pointer :: "cxx_type \<Rightarrow> bool" where
  "is_pointer (T_pointer _) = True"
| "is_pointer _ = False"

fun is_object :: "cxx_type \<Rightarrow> bool" where
  "is_object T_void = False"
| "is_object _ = True"

fun is_integral :: "cxx_type \<Rightarrow> bool" where
  "is_integral T_bool = True"
| "is_integral T_char = True"
| "is_integral T_signed_char = True"
| "is_integral T_unsigned_char = True"
| "is_integral T_wchar_t = True"
| "is_integral T_char16_t = True"
| "is_integral T_char32_t = True"
| "is_integral T_short = True"
| "is_integral T_unsigned_short = True"
| "is_integral T_int = True"
| "is_integral T_unsigned_int = True"
| "is_integral T_long = True"
| "is_integral T_unsigned_long = True"
| "is_integral T_long_long = True"
| "is_integral T_unsigned_long_long = True"
| "is_integral _ = False"

subsection \<open>Argument values\<close>

text \<open>An integral argument carries the bits of its own type.\<close>

datatype integral =
    I_bool bool
  | I_char "8 word" | I_signed_char "8 word" | I_unsigned_char "8 word"
  | I_wchar_t "32 word" | I_char16_t "16 word" | I_char32_t "32 word"
  | I_short "16 word" | I_unsigned_short "16 word"
  | I_int "32 word" | I_unsigned_int "32 word"
  | I_long "64 word" | I_unsigned_long "64 word"
  | I_long_long "64 word" | I_unsigned_long_long "64 word"

text \<open>The number an integral argument denotes.\<close>

fun integral_value :: "integral \<Rightarrow> int" where
  "integral_value (I_bool b) = (if b then 1 else 0)"
| "integral_value (I_char w) = sint w"
| "integral_value (I_signed_char w) = sint w"
| "integral_value (I_unsigned_char w) = uint w"
| "integral_value (I_wchar_t w) = sint w"
| "integral_value (I_char16_t w) = uint w"
| "integral_value (I_char32_t w) = uint w"
| "integral_value (I_short w) = sint w"
| "integral_value (I_unsigned_short w) = uint w"
| "integral_value (I_int w) = sint w"
| "integral_value (I_unsigned_int w) = uint w"
| "integral_value (I_long w) = sint w"
| "integral_value (I_unsigned_long w) = uint w"
| "integral_value (I_long_long w) = sint w"
| "integral_value (I_unsigned_long_long w) = uint w"

fun integral_type :: "integral \<Rightarrow> cxx_type" where
  "integral_type (I_bool _) = T_bool"
| "integral_type (I_char _) = T_char"
| "integral_type (I_signed_char _) = T_signed_char"
| "integral_type (I_unsigned_char _) = T_unsigned_char"
| "integral_type (I_wchar_t _) = T_wchar_t"
| "integral_type (I_char16_t _) = T_char16_t"
| "integral_type (I_char32_t _) = T_char32_t"
| "integral_type (I_short _) = T_short"
| "integral_type (I_unsigned_short _) = T_unsigned_short"
| "integral_type (I_int _) = T_int"
| "integral_type (I_unsigned_int _) = T_unsigned_int"
| "integral_type (I_long _) = T_long"
| "integral_type (I_unsigned_long _) = T_unsigned_long"
| "integral_type (I_long_long _) = T_long_long"
| "integral_type (I_unsigned_long_long _) = T_unsigned_long_long"

text \<open>A floating-point argument is represented by the finite number it denotes (NaN and the
  infinities are outside the model), tagged with its type.\<close>

datatype floating = F_float real | F_double real | F_long_double real

fun floating_type :: "floating \<Rightarrow> cxx_type" where
  "floating_type (F_float _) = T_float"
| "floating_type (F_double _) = T_double"
| "floating_type (F_long_double _) = T_long_double"

fun floating_value :: "floating \<Rightarrow> real" where
  "floating_value (F_float x) = x"
| "floating_value (F_double x) = x"
| "floating_value (F_long_double x) = x"

text \<open>A pointer to the first character of a NUL-terminated array is represented by the
  characters of that array; any other pointer by its pointee type and its address.\<close>

datatype pointer = Ptr_to_chars string | Ptr_to cxx_type nat

fun pointee :: "pointer \<Rightarrow> cxx_type" where
  "pointee (Ptr_to_chars _) = T_char"
| "pointee (Ptr_to T _) = T"

text \<open>The arguments a call of \<^verbatim>\<open>safe_printf\<close> compiles with: one of the three template
  overloads of \<^verbatim>\<open>ValidateArgument\<close> or the \<^verbatim>\<open>std::string\<close> overload must accept each.\<close>

datatype arg =
    A_integral integral
  | A_floating floating
  | A_pointer pointer
  | A_string string

fun arg_type :: "arg \<Rightarrow> cxx_type" where
  "arg_type (A_integral i) = integral_type i"
| "arg_type (A_floating x) = floating_type x"
| "arg_type (A_pointer p) = T_pointer (pointee p)"
| "arg_type (A_string _) = T_std_string"

text \<open>What \<^verbatim>\<open>ValidateArgument\<close> returns: a long, a double, or a pointer of the type it
  was given.\<close>

datatype canon = C_long "64 word" | C_double real | C_pointer pointer

fun canon_type :: "canon \<Rightarrow> cxx_type" where
  "canon_type (C_long _) = T_long"
| "canon_type (C_double _) = T_double"
| "canon_type (C_pointer p) = T_pointer (pointee p)"

subsection \<open>The platform\<close>

text \<open>Two things the program takes from its platform: the C library's \<^verbatim>\<open>printf\<close> (here
  the text it writes for a format and converted arguments) and the rounding of a long
  double that has no double of the same value.\<close>

record platform =
  printf :: "string \<Rightarrow> canon list \<Rightarrow> string"
  long_double_to_double :: "real \<Rightarrow> real"

subsection \<open>ValidateArgument (lines 62-87)\<close>

text \<open>The implicit conversion of \<^verbatim>\<open>return arg;\<close> to long: sign extension from a signed
  type, zero extension from an unsigned one, the same 64 bits from a 64-bit type.\<close>

fun to_long :: "integral \<Rightarrow> 64 word" where
  "to_long (I_bool b) = (if b then 1 else 0)"
| "to_long (I_char w) = scast w"
| "to_long (I_signed_char w) = scast w"
| "to_long (I_unsigned_char w) = ucast w"
| "to_long (I_wchar_t w) = scast w"
| "to_long (I_char16_t w) = ucast w"
| "to_long (I_char32_t w) = ucast w"
| "to_long (I_short w) = scast w"
| "to_long (I_unsigned_short w) = ucast w"
| "to_long (I_int w) = scast w"
| "to_long (I_unsigned_int w) = ucast w"
| "to_long (I_long w) = w"
| "to_long (I_unsigned_long w) = w"
| "to_long (I_long_long w) = w"
| "to_long (I_unsigned_long_long w) = w"

text \<open>The conversion to double: a float or a double keeps its value, a long double is
  rounded by the platform.\<close>

fun to_double :: "platform \<Rightarrow> floating \<Rightarrow> real" where
  "to_double P (F_float x) = x"
| "to_double P (F_double x) = x"
| "to_double P (F_long_double x) = long_double_to_double P x"

text \<open>The four overloads; \<^verbatim>\<open>c_str()\<close> of a string is the pointer to its characters.\<close>

fun ValidateArgument :: "platform \<Rightarrow> arg \<Rightarrow> canon" where
  "ValidateArgument P (A_integral i) = C_long (to_long i)"
| "ValidateArgument P (A_floating x) = C_double (to_double P x)"
| "ValidateArgument P (A_pointer p) = C_pointer p"
| "ValidateArgument P (A_string s) = C_pointer (Ptr_to_chars s)"

subsection \<open>check\_printf (lines 102-148)\<close>

text \<open>The \<^verbatim>\<open>what()\<close> of the \<^verbatim>\<open>std::runtime_error\<close> thrown.\<close>

datatype error =
    Bad_format
  | Parameter_is_not_floating_point
  | Parameter_is_not_integral
  | Non_string_parameter
  | Invalid_format_character

text \<open>A format is the list of characters at \<^verbatim>\<open>f\<close>; \<^verbatim>\<open>*f\<close> is the terminator NUL at the
  end of the list.\<close>

definition NUL :: char where
  "NUL = CHR 0x00"

fun peek :: "string \<Rightarrow> char" where
  "peek [] = NUL"
| "peek (c # _) = c"

text \<open>The base case (lines 102-110): no argument is left, so any directive is an error.\<close>

fun check_printf_nil :: "string \<Rightarrow> error + unit" where
  "check_printf_nil [] = Inr ()"
| "check_printf_nil (c # f) =
     (if c = NUL then Inr ()
      else if c \<noteq> CHR ''%'' then check_printf_nil f
      else if peek f = CHR ''%'' then check_printf_nil (tl f)
      else Inl Bad_format)"

text \<open>The \<^verbatim>\<open>switch\<close> of lines 126-144 on the conversion character, for an argument of
  static type \<open>T\<close>: the error it throws, or \<open>None\<close> when it breaks.\<close>

definition switch_directive :: "char \<Rightarrow> cxx_type \<Rightarrow> error option" where
  "switch_directive c T =
     (if c = CHR ''f'' \<or> c = CHR ''g'' then
        (if \<not> is_floating_point T then Some Parameter_is_not_floating_point else None)
      else if c = CHR ''d'' then
        (if \<not> is_integral T then Some Parameter_is_not_integral else None)
      else if c = CHR ''s'' then
        (if \<not> is_object (T_pointer T_char) \<or> \<not> is_object T_std_string
         then Some Non_string_parameter else None)
      else Some Invalid_format_character)"

text \<open>The recursive overload (lines 113-148); a call with an empty pack resolves to the
  base case. The loop ends without a throw when the format ends, whatever is left of the
  pack.\<close>

fun check_printf :: "string \<Rightarrow> canon list \<Rightarrow> error + unit" where
  "check_printf f [] = check_printf_nil f"
| "check_printf [] (t # ts) = Inr ()"
| "check_printf (c # f) (t # ts) =
     (if c = NUL then Inr ()
      else if c \<noteq> CHR ''%'' then check_printf f (t # ts)
      else if peek f = CHR ''%'' then check_printf (tl f) (t # ts)
      else (case switch_directive (peek f) (canon_type t) of
              Some e \<Rightarrow> Inl e
            | None \<Rightarrow> check_printf (tl f) ts))"

subsection \<open>safe\_printf (lines 150-157)\<close>

text \<open>The state is the text written to standard output so far. A throw of the check leaves
  it as it was; otherwise printf's text is appended and its length returned.\<close>

definition safe_printf ::
  "platform \<Rightarrow> string \<Rightarrow> arg list \<Rightarrow> string \<Rightarrow> (error + int) \<times> string" where
  "safe_printf P f ts out =
     (case check_printf f (map (ValidateArgument P) ts) of
        Inl e \<Rightarrow> (Inl e, out)
      | Inr _ \<Rightarrow>
          (let s = printf P f (map (ValidateArgument P) ts)
           in (Inr (int (length s)), out @ s)))"

subsection \<open>printf on the conversions that pass the check\<close>

text \<open>The C library is not part of the repository. For the output of a call the model
  uses a reference for ISO C \<^verbatim>\<open>fprintf\<close> (7.21.6.1) on the conversions without flags,
  width or precision that \<^verbatim>\<open>check_printf\<close> lets through: ordinary characters are
  copied, \<^verbatim>\<open>%%\<close> writes one \<^verbatim>\<open>%\<close>, \<^verbatim>\<open>%s\<close> writes the characters of its array up to
  the terminator, \<^verbatim>\<open>%d\<close> writes an int in decimal, arguments left over are ignored. On
  x86-64 an int read where a long was passed is the low 32 bits of the long. The result
  is \<open>None\<close> where the reference says nothing: a floating conversion, a conversion
  without an argument or with one of another kind, a lone \<^verbatim>\<open>%\<close> at the end.\<close>

fun decimal_digits :: "nat \<Rightarrow> string" where
  "decimal_digits n =
     (if n < 10 then [''0123456789'' ! n]
      else decimal_digits (n div 10) @ [''0123456789'' ! (n mod 10)])"

definition decimal :: "int \<Rightarrow> string" where
  "decimal i = (if i < 0 then CHR ''-'' # decimal_digits (nat (- i)) else decimal_digits (nat i))"

definition convert :: "char \<Rightarrow> canon \<Rightarrow> string option" where
  "convert c a =
     (if c = CHR ''d'' then
        (case a of C_long w \<Rightarrow> Some (decimal (sint (ucast w :: 32 word))) | _ \<Rightarrow> None)
      else if c = CHR ''s'' then
        (case a of
           C_pointer (Ptr_to_chars s) \<Rightarrow> Some (takeWhile (\<lambda>x. x \<noteq> NUL) s)
         | _ \<Rightarrow> None)
      else None)"

fun printf_std :: "string \<Rightarrow> canon list \<Rightarrow> string option" where
  "printf_std [] as = Some []"
| "printf_std (c # f) as =
     (if c = NUL then Some []
      else if c \<noteq> CHR ''%'' then map_option ((#) c) (printf_std f as)
      else if peek f = CHR ''%'' then map_option ((#) (CHR ''%'')) (printf_std (tl f) as)
      else (case as of
              [] \<Rightarrow> None
            | a # as' \<Rightarrow>
                (case convert (peek f) a of
                   None \<Rightarrow> None
                 | Some s \<Rightarrow> map_option ((@) s) (printf_std (tl f) as'))))"

text \<open>A platform whose printf writes what the reference says, wherever it says something.\<close>

definition conforms :: "platform \<Rightarrow> bool" where
  "conforms P \<longleftrightarrow> (\<forall>f as s. printf_std f as = Some s \<longrightarrow> printf P f as = s)"

text \<open>The reference itself as a platform (it writes nothing where it is silent, and keeps
  the value of a long double that is a double).\<close>

definition reference_platform :: platform where
  "reference_platform =
     \<lparr> printf = (\<lambda>f as. case printf_std f as of Some s \<Rightarrow> s | None \<Rightarrow> []),
       long_double_to_double = (\<lambda>x. x) \<rparr>"

subsection \<open>The words of the specification\<close>

text \<open>The template of a call is the text before the terminator.\<close>

definition c_string :: "string \<Rightarrow> string" where
  "c_string f = takeWhile (\<lambda>c. c \<noteq> NUL) f"

text \<open>Section 4.2: every \<^verbatim>\<open>%\<close> not followed by a second \<^verbatim>\<open>%\<close> starts a directive,
  whose conversion character is the character after it; \<^verbatim>\<open>%%\<close> is an escape and
  everything else literal text. \<open>directives f\<close> lists the conversion characters from left to
  right. After a \<^verbatim>\<open>%\<close> that ends the template the character read is the terminator.\<close>

fun directives :: "string \<Rightarrow> char list" where
  "directives [] = []"
| "directives (c # f) =
     (if c = NUL then []
      else if c \<noteq> CHR ''%'' then directives f
      else if peek f = CHR ''%'' then directives (tl f)
      else if peek f = NUL then [NUL]
      else peek f # directives (tl f))"

text \<open>Section 3 and the glossary: the category of an argument. The text-like ones are a
  pointer to characters and a string.\<close>

datatype category = Integral | Float | Pointer | Text

fun category_of :: "arg \<Rightarrow> category" where
  "category_of (A_integral _) = Integral"
| "category_of (A_floating _) = Float"
| "category_of (A_pointer p) = (if pointee p = T_char then Text else Pointer)"
| "category_of (A_string _) = Text"

text \<open>Section 4.2: the kind of a directive is the category it requires: floating-point for
  \<^verbatim>\<open>f\<close> and \<^verbatim>\<open>g\<close>, integral for \<^verbatim>\<open>d\<close>, text for \<^verbatim>\<open>s\<close>; any other conversion
  character is unrecognized.\<close>

definition directive_kind :: "char \<Rightarrow> category option" where
  "directive_kind c =
     (if c = CHR ''f'' \<or> c = CHR ''g'' then Some Float
      else if c = CHR ''d'' then Some Integral
      else if c = CHR ''s'' then Some Text
      else None)"

definition matches :: "char \<Rightarrow> arg \<Rightarrow> bool" where
  "matches c a \<longleftrightarrow> directive_kind c = Some (category_of a)"

text \<open>Section 7: the conditions, by the message thrown.\<close>

definition DirectiveArgumentMismatch :: "error \<Rightarrow> bool" where
  "DirectiveArgumentMismatch e \<longleftrightarrow>
     e = Parameter_is_not_floating_point \<or> e = Parameter_is_not_integral \<or>
     e = Non_string_parameter"

definition UnrecognizedDirective :: "error \<Rightarrow> bool" where
  "UnrecognizedDirective e \<longleftrightarrow> e = Invalid_format_character"

text \<open>Section 8: the template with each \<^verbatim>\<open>%%\<close> replaced by a single \<^verbatim>\<open>%\<close>, from left
  to right.\<close>

fun unescape :: "string \<Rightarrow> string" where
  "unescape (a # b # f) =
     (if a = CHR ''%'' \<and> b = CHR ''%'' then CHR ''%'' # unescape f
      else a # unescape (b # f))"
| "unescape f = f"

text \<open>The number of \<^verbatim>\<open>%\<close> characters that end a template. The last of them is a lone,
  unescaped \<^verbatim>\<open>%\<close> exactly when the number is odd: the ones before it pair up into
  escapes.\<close>

definition trailing_percents :: "string \<Rightarrow> nat" where
  "trailing_percents s = length (takeWhile (\<lambda>c. c = CHR ''%'') (rev s))"

text \<open>The validation seen on the directives alone: one argument for each directive, in
  order, tested by the \<^verbatim>\<open>switch\<close>; a directive with no argument left is the base case's
  error.\<close>

fun check_directives :: "char list \<Rightarrow> canon list \<Rightarrow> error + unit" where
  "check_directives [] as = Inr ()"
| "check_directives (d # ds) [] = Inl Bad_format"
| "check_directives (d # ds) (a # as) =
     (case switch_directive d (canon_type a) of
        Some e \<Rightarrow> Inl e
      | None \<Rightarrow> check_directives ds as)"

text \<open>The scan rejects directive \<open>d\<close> for argument \<open>a\<close> of a call: the \<^verbatim>\<open>switch\<close>
  throws on the type of the converted argument.\<close>

definition rejects :: "platform \<Rightarrow> char \<Rightarrow> arg \<Rightarrow> bool" where
  "rejects P d a \<longleftrightarrow> switch_directive d (canon_type (ValidateArgument P a)) \<noteq> None"

section \<open>Properties\<close>

subsection \<open>The scan and the directives of the template\<close>

lemma check_printf_nil_directives:
  "check_printf_nil f = check_directives (directives f) []"
  by (induction f rule: check_printf_nil.induct) auto

lemma check_printf_directives:
  "check_printf f as = check_directives (directives f) as"
proof (induction f as rule: check_printf.induct)
  case (1 f)
  then show ?case by (cases "directives f") (simp_all add: check_printf_nil_directives)
next
  case (2 t ts)
  then show ?case by simp
next
  case (3 c f t ts)
  then show ?case by (auto simp: switch_directive_def NUL_def split: option.splits)
qed

lemma too_few: "length as < length ds \<Longrightarrow> \<exists>e. check_directives ds as = Inl e"
proof (induction ds as rule: check_directives.induct)
  case (3 d ds a as)
  then show ?case by (cases "switch_directive d (canon_type a)") auto
qed auto

lemma first_rejected:
  "i < length ds \<Longrightarrow> i < length as \<Longrightarrow> switch_directive (ds ! i) (canon_type (as ! i)) \<noteq> None \<Longrightarrow>
   \<exists>j e. j \<le> i \<and> switch_directive (ds ! j) (canon_type (as ! j)) = Some e \<and>
     (\<forall>k<j. switch_directive (ds ! k) (canon_type (as ! k)) = None) \<and>
     check_directives ds as = Inl e"
proof (induction ds as arbitrary: i rule: check_directives.induct)
  case (3 d ds a as)
  show ?case
  proof (cases "switch_directive d (canon_type a)")
    case (Some e)
    then have "0 \<le> i \<and> switch_directive ((d # ds) ! 0) (canon_type ((a # as) ! 0)) = Some e \<and>
      (\<forall>k<0. switch_directive ((d # ds) ! k) (canon_type ((a # as) ! k)) = None) \<and>
      check_directives (d # ds) (a # as) = Inl e"
      by simp
    then show ?thesis by blast
  next
    case None
    with "3.prems" obtain i' where i: "i = Suc i'"
      by (cases i) auto
    with "3.prems" have "i' < length ds" "i' < length as"
      "switch_directive (ds ! i') (canon_type (as ! i')) \<noteq> None"
      by auto
    from "3.IH" [OF None this] obtain j e where j: "j \<le> i'"
      "switch_directive (ds ! j) (canon_type (as ! j)) = Some e"
      "\<forall>k<j. switch_directive (ds ! k) (canon_type (as ! k)) = None"
      "check_directives ds as = Inl e"
      by blast
    have "\<forall>k<Suc j. switch_directive ((d # ds) ! k) (canon_type ((a # as) ! k)) = None"
    proof (intro allI impI)
      fix k assume "k < Suc j"
      then show "switch_directive ((d # ds) ! k) (canon_type ((a # as) ! k)) = None"
        using None j(3) by (cases k) auto
    qed
    with j i None have "Suc j \<le> i \<and>
      switch_directive ((d # ds) ! Suc j) (canon_type ((a # as) ! Suc j)) = Some e \<and>
      (\<forall>k<Suc j. switch_directive ((d # ds) ! k) (canon_type ((a # as) ! k)) = None) \<and>
      check_directives (d # ds) (a # as) = Inl e"
      by simp
    then show ?thesis by blast
  qed
qed auto

lemma all_accepted:
  "length ds \<le> length as \<Longrightarrow>
   \<forall>j<length ds. switch_directive (ds ! j) (canon_type (as ! j)) = None \<Longrightarrow>
   check_directives ds as = Inr ()"
proof (induction ds as rule: check_directives.induct)
  case (3 d ds a as)
  from "3.prems"(2) have h: "switch_directive d (canon_type a) = None"
    by fastforce
  from "3.prems"(2) have "\<forall>j<length ds. switch_directive (ds ! j) (canon_type (as ! j)) = None"
    by fastforce
  with "3.IH" [OF h] "3.prems"(1) h show ?case by simp
qed auto

text \<open>Each argument is taken by the overload its type enables, and by no other template
  overload.\<close>

lemma overload_by_trait:
  "(is_integral (arg_type a) \<longleftrightarrow> (\<exists>i. a = A_integral i)) \<and>
   (is_floating_point (arg_type a) \<longleftrightarrow> (\<exists>x. a = A_floating x)) \<and>
   (is_pointer (arg_type a) \<longleftrightarrow> (\<exists>p. a = A_pointer p)) \<and>
   (arg_type a = T_std_string \<longleftrightarrow> (\<exists>s. a = A_string s))"
proof (cases a)
  case (A_integral i)
  then show ?thesis by (cases i) simp_all
next
  case (A_floating x)
  then show ?thesis by (cases x) simp_all
qed simp_all

lemma canon_integral: "is_integral (canon_type (ValidateArgument P a)) \<longleftrightarrow> category_of a = Integral"
  by (cases a) auto

lemma canon_floating: "is_floating_point (canon_type (ValidateArgument P a)) \<longleftrightarrow> category_of a = Float"
  by (cases a) auto

lemma matches_accepted:
  "matches d a \<Longrightarrow> switch_directive d (canon_type (ValidateArgument P a)) = None"
  by (auto simp: matches_def directive_kind_def switch_directive_def canon_integral canon_floating
      split: if_splits)

lemma unrecognised_rejected:
  "directive_kind d = None \<Longrightarrow> switch_directive d T = Some Invalid_format_character"
  by (auto simp: directive_kind_def switch_directive_def split: if_splits)

lemma recognised_mismatch:
  "directive_kind d \<noteq> None \<Longrightarrow> switch_directive d T = Some e \<Longrightarrow> DirectiveArgumentMismatch e"
  by (auto simp: directive_kind_def switch_directive_def DirectiveArgumentMismatch_def split: if_splits)

lemma trailing_percents_all:
  assumes "\<forall>x\<in>set s. x = CHR ''%''"
  shows "trailing_percents s = length s"
proof -
  from assms have "\<forall>x\<in>set (rev s). x = CHR ''%''"
    by simp
  then have all: "takeWhile (\<lambda>c. c = CHR ''%'') (rev s) = rev s"
    by (rule takeWhile_eq_all_conv [THEN iffD2])
  show ?thesis
    unfolding trailing_percents_def all by simp
qed

lemma trailing_percents_Cons:
  "trailing_percents (c # s) =
     (if c = CHR ''%'' \<and> (\<forall>x\<in>set s. x = CHR ''%'') then Suc (length s) else trailing_percents s)"
proof (cases "\<forall>x\<in>set s. x = CHR ''%''")
  case True
  then have "takeWhile (\<lambda>c. c = CHR ''%'') (rev s @ [c]) = rev s @ takeWhile (\<lambda>c. c = CHR ''%'') [c]"
    by (intro takeWhile_append2) simp
  then have "trailing_percents (c # s) = length s + (if c = CHR ''%'' then 1 else 0)"
    unfolding trailing_percents_def by simp
  with True trailing_percents_all [OF True] show ?thesis
    by simp
next
  case False
  then obtain x where "x \<in> set (rev s)" "\<not> x = CHR ''%''"
    by auto
  then have "takeWhile (\<lambda>c. c = CHR ''%'') (rev s @ [c]) = takeWhile (\<lambda>c. c = CHR ''%'') (rev s)"
    by (rule takeWhile_append1)
  then have "trailing_percents (c # s) = trailing_percents s"
    unfolding trailing_percents_def by simp
  with False show ?thesis
    by presburger
qed

lemma c_string_Cons: "c_string (c # f) = (if c = NUL then [] else c # c_string f)"
  by (simp add: c_string_def)

lemma trailing_percents_literal:
  "c \<noteq> CHR ''%'' \<Longrightarrow> trailing_percents (c # s) = trailing_percents s"
  by (simp add: trailing_percents_Cons)

lemma trailing_percents_escape:
  "even (trailing_percents (CHR ''%'' # CHR ''%'' # s)) = even (trailing_percents s)"
proof (cases "\<forall>x\<in>set s. x = CHR ''%''")
  case True
  then have "trailing_percents (CHR ''%'' # CHR ''%'' # s) = Suc (Suc (length s))"
    by (simp add: trailing_percents_Cons)
  with trailing_percents_all [OF True] show ?thesis
    by simp
next
  case False
  then have "trailing_percents (CHR ''%'' # CHR ''%'' # s) = trailing_percents s"
    by (auto simp: trailing_percents_Cons)
  then show ?thesis
    by simp
qed

lemma trailing_percents_directive:
  "d \<noteq> CHR ''%'' \<Longrightarrow> trailing_percents (CHR ''%'' # d # s) = trailing_percents s"
  by (simp add: trailing_percents_Cons)

lemma dangling:
  "odd (trailing_percents (c_string f)) \<Longrightarrow> NUL \<in> set (directives f)"
proof (induction f rule: directives.induct)
  case 1
  then show ?case
    by (simp add: c_string_def trailing_percents_def)
next
  case (2 c f)
  consider (nul) "c = NUL" | (lit) "c \<noteq> NUL" "c \<noteq> CHR ''%''" | (pct) "c = CHR ''%''"
    by blast
  then show ?case
  proof cases
    case nul
    with "2.prems" show ?thesis
      by (simp add: c_string_Cons trailing_percents_def)
  next
    case lit
    with "2.prems" have "odd (trailing_percents (c_string f))"
      by (simp add: c_string_Cons trailing_percents_literal)
    with "2.IH"(1) lit show ?thesis
      by simp
  next
    case pct
    then have c: "c \<noteq> NUL"
      by (simp add: NUL_def)
    show ?thesis
    proof (cases f)
      case Nil
      with pct c show ?thesis
        by simp
    next
      case (Cons d f')
      consider (esc) "d = CHR ''%''" | (fin) "d = NUL" | (dir) "d \<noteq> CHR ''%''" "d \<noteq> NUL"
        by blast
      then show ?thesis
      proof cases
        case esc
        then have d: "d \<noteq> NUL"
          by (simp add: NUL_def)
        from "2.prems" pct esc Cons c d have "odd (trailing_percents (c_string f'))"
          by (simp add: c_string_Cons trailing_percents_escape)
        with "2.IH"(2) pct esc Cons c show ?thesis
          by simp
      next
        case fin
        with pct c Cons show ?thesis
          by (simp add: NUL_def)
      next
        case dir
        from "2.prems" pct dir Cons c have "odd (trailing_percents (c_string f'))"
          by (simp add: c_string_Cons trailing_percents_directive)
        with "2.IH"(3) pct dir Cons c show ?thesis
          by simp
      qed
    qed
  qed
qed

subsection \<open>Reading a converted integer\<close>

lemma sint_ucast_small:
  fixes w :: "'a::len word"
  assumes "LENGTH('a) < 64"
  shows "sint (ucast w :: 64 word) = uint w"
proof -
  have "uint w < 2 ^ LENGTH('a)"
    by (rule uint_bounded)
  also have "(2::int) ^ LENGTH('a) \<le> 2 ^ 63"
    using assms by (intro power_increasing) auto
  finally have "uint w < 2 ^ 63" .
  moreover have "- (2 ^ 63) \<le> uint w"
    by (rule order_trans [where y = 0]) simp_all
  ultimately have "signed_take_bit 63 (uint w) = uint w"
    by (intro signed_take_bit_int_eq_self) 
  moreover have "uint (ucast w :: 64 word) = uint w"
    using assms by (intro uint_up_ucast) (simp add: is_up)
  ultimately show ?thesis
    by (simp add: sint_uint)
qed

lemma sint_scast_small:
  fixes w :: "'a::len word"
  assumes "LENGTH('a) \<le> 64"
  shows "sint (scast w :: 64 word) = sint w"
  using assms by (intro sint_up_scast) (simp add: is_up)

lemma sint_long:
  fixes w :: "64 word"
  shows "sint w = (if uint w \<le> 9223372036854775807 then uint w else uint w - 18446744073709551616)"
proof (cases "uint w \<le> 9223372036854775807")
  case True
  then have "uint w < 2 ^ 63"
    by simp
  moreover have "- (2 ^ 63) \<le> uint w"
    by (rule order_trans [where y = 0]) simp_all
  ultimately have "signed_take_bit 63 (uint w) = uint w"
    by (intro signed_take_bit_int_eq_self)
  with True show ?thesis
    by (simp add: sint_uint)
next
  case False
  have "uint w < 2 ^ LENGTH(64)"
    by (rule uint_bounded)
  then have up: "uint w < 18446744073709551616"
    by simp
  define k where "k = uint w - 9223372036854775808"
  have k: "0 \<le> k" "k < 18446744073709551616"
    using False up by (simp_all add: k_def)
  have "uint w + 2 ^ 63 = k + 18446744073709551616"
    by (simp add: k_def)
  then have "take_bit 64 (uint w + 2 ^ 63) = (k + 18446744073709551616) mod 18446744073709551616"
    by (simp add: take_bit_eq_mod)
  also have "\<dots> = k"
    using k by simp
  finally have "signed_take_bit 63 (uint w) = k - 2 ^ 63"
    by (simp add: signed_take_bit_eq_take_bit_shift)
  with False show ?thesis
    by (simp add: sint_uint k_def)
qed

lemma small_unsigned:
  fixes w :: "'a::len word"
  assumes "LENGTH('a) < 64"
  shows "uint w \<le> 9223372036854775807"
proof -
  have "uint w < 2 ^ LENGTH('a)"
    by (rule uint_bounded)
  also have "(2::int) ^ LENGTH('a) \<le> 2 ^ 63"
    using assms by (intro power_increasing) auto
  finally show ?thesis
    by simp
qed

lemma any_signed:
  fixes w :: "'a::len word"
  assumes "LENGTH('a) \<le> 64"
  shows "sint w \<le> 9223372036854775807"
proof -
  have "sint w < 2 ^ (LENGTH('a) - 1)"
    by (rule sint_lt)
  also have "(2::int) ^ (LENGTH('a) - 1) \<le> 2 ^ 63"
    using assms by (intro power_increasing) auto
  finally show ?thesis
    by simp
qed

lemma to_long_value:
  "sint (to_long i) =
     (if integral_value i \<le> 9223372036854775807 then integral_value i
      else integral_value i - 18446744073709551616)"
  by (cases i)
    (simp_all add: sint_ucast_small sint_scast_small small_unsigned any_signed,
     simp_all add: sint_long)

subsection \<open>The call, by the result of the check\<close>

lemma safe_printf_throws:
  "check_printf f (map (ValidateArgument P) ts) = Inl e \<Longrightarrow>
   safe_printf P f ts out = (Inl e, out)"
  by (simp add: safe_printf_def)

lemma safe_printf_prints:
  "check_printf f (map (ValidateArgument P) ts) = Inr u \<Longrightarrow>
   safe_printf P f ts out =
     (Inr (int (length (printf P f (map (ValidateArgument P) ts)))),
      out @ printf P f (map (ValidateArgument P) ts))"
  by (simp add: safe_printf_def Let_def)

lemma exhausted:
  "length as < length ds \<Longrightarrow>
   \<forall>j<length as. switch_directive (ds ! j) (canon_type (as ! j)) = None \<Longrightarrow>
   check_directives ds as = Inl Bad_format"
proof (induction ds as rule: check_directives.induct)
  case (3 d ds a as)
  from "3.prems"(2) have h: "switch_directive d (canon_type a) = None"
    by fastforce
  from "3.prems"(2) have "\<forall>j<length as. switch_directive (ds ! j) (canon_type (as ! j)) = None"
    by fastforce
  with "3.IH" [OF h] "3.prems"(1) h show ?case by simp
qed auto

lemma rejected_call:
  assumes "i < length (directives f)" "i < length ts" "rejects P (directives f ! i) (ts ! i)"
  shows "\<exists>j e. j \<le> i \<and>
           switch_directive (directives f ! j) (canon_type (ValidateArgument P (ts ! j))) = Some e \<and>
           (\<forall>k<j. \<not> rejects P (directives f ! k) (ts ! k)) \<and>
           safe_printf P f ts out = (Inl e, out)"
proof -
  let ?as = "map (ValidateArgument P) ts"
  from assms have "i < length ?as" "switch_directive (directives f ! i) (canon_type (?as ! i)) \<noteq> None"
    by (simp_all add: rejects_def)
  from first_rejected [OF assms(1) this] obtain j e where j: "j \<le> i"
    "switch_directive (directives f ! j) (canon_type (?as ! j)) = Some e"
    "\<forall>k<j. switch_directive (directives f ! k) (canon_type (?as ! k)) = None"
    "check_directives (directives f) ?as = Inl e"
    by blast
  from j(4) have "safe_printf P f ts out = (Inl e, out)"
    by (simp add: safe_printf_throws check_printf_directives)
  moreover from j(1,2) assms(2) have
    "switch_directive (directives f ! j) (canon_type (ValidateArgument P (ts ! j))) = Some e"
    by simp
  moreover from j(1,3) assms(2) have "\<forall>k<j. \<not> rejects P (directives f ! k) (ts ! k)"
    by (simp add: rejects_def)
  ultimately show ?thesis
    using j(1) by blast
qed

lemma too_few_call:
  assumes "length ts < length (directives f)"
  shows "\<exists>e. safe_printf P f ts out = (Inl e, out)"
proof -
  from assms have "length (map (ValidateArgument P) ts) < length (directives f)"
    by simp
  from too_few [OF this] obtain e where
    "check_directives (directives f) (map (ValidateArgument P) ts) = Inl e" ..
  then have "safe_printf P f ts out = (Inl e, out)"
    by (simp add: safe_printf_throws check_printf_directives)
  then show ?thesis ..
qed

lemma exhausted_call:
  assumes "length ts < length (directives f)"
    "\<forall>j<length ts. \<not> rejects P (directives f ! j) (ts ! j)"
  shows "safe_printf P f ts out = (Inl Bad_format, out)"
proof -
  let ?as = "map (ValidateArgument P) ts"
  from assms have "length ?as < length (directives f)"
    "\<forall>j<length ?as. switch_directive (directives f ! j) (canon_type (?as ! j)) = None"
    by (simp_all add: rejects_def)
  then have "check_directives (directives f) ?as = Inl Bad_format"
    by (rule exhausted)
  then show ?thesis
    by (simp add: safe_printf_throws check_printf_directives)
qed

lemma accepted_call:
  assumes "length (directives f) \<le> length ts"
    "\<forall>j<length (directives f). \<not> rejects P (directives f ! j) (ts ! j)"
  shows "safe_printf P f ts out =
     (Inr (int (length (printf P f (map (ValidateArgument P) ts)))),
      out @ printf P f (map (ValidateArgument P) ts))"
proof -
  let ?as = "map (ValidateArgument P) ts"
  from assms have "length (directives f) \<le> length ?as"
    "\<forall>j<length (directives f). switch_directive (directives f ! j) (canon_type (?as ! j)) = None"
    by (simp_all add: rejects_def)
  then have "check_directives (directives f) ?as = Inr ()"
    by (rule all_accepted)
  then show ?thesis
    by (simp add: safe_printf_prints check_printf_directives)
qed

lemma rejects_integral:
  "rejects P (CHR ''d'') a \<longleftrightarrow> category_of a \<noteq> Integral"
  by (simp add: rejects_def switch_directive_def canon_integral)

lemma rejects_floating:
  "d = CHR ''f'' \<or> d = CHR ''g'' \<Longrightarrow> rejects P d a \<longleftrightarrow> category_of a \<noteq> Float"
  by (auto simp: rejects_def switch_directive_def canon_floating)

lemma rejects_unrecognised:
  "directive_kind d = None \<Longrightarrow> rejects P d a"
  by (simp add: rejects_def unrecognised_rejected)

lemma mismatch_call:
  assumes "i < length (directives f)" "i < length ts" "rejects P (directives f ! i) (ts ! i)"
    and kind: "directive_kind (directives f ! i) \<noteq> None"
    and only: "\<And>e. switch_directive (directives f ! i) (canon_type (ValidateArgument P (ts ! i))) = Some e
        \<Longrightarrow> e = e0"
  shows "\<exists>e. safe_printf P f ts out = (Inl e, out) \<and>
           ((\<forall>j<i. directive_kind (directives f ! j) \<noteq> None) \<longrightarrow> DirectiveArgumentMismatch e) \<and>
           ((\<forall>j<i. \<not> rejects P (directives f ! j) (ts ! j)) \<longrightarrow> e = e0)"
proof -
  from rejected_call [OF assms(1-3)] obtain j e where j: "j \<le> i"
    "switch_directive (directives f ! j) (canon_type (ValidateArgument P (ts ! j))) = Some e"
    "\<forall>k<j. \<not> rejects P (directives f ! k) (ts ! k)"
    "safe_printf P f ts out = (Inl e, out)"
    by blast
  have "DirectiveArgumentMismatch e" if "\<forall>j<i. directive_kind (directives f ! j) \<noteq> None"
  proof -
    from that kind j(1) have "directive_kind (directives f ! j) \<noteq> None"
      by (cases "j = i") auto
    then show ?thesis
      using j(2) by (rule recognised_mismatch)
  qed
  moreover have "e = e0" if "\<forall>j<i. \<not> rejects P (directives f ! j) (ts ! j)"
  proof -
    from j(2) have "rejects P (directives f ! j) (ts ! j)"
      by (simp add: rejects_def)
    with that j(1) have "j = i"
      by (cases "j = i") auto
    with j(2) only show ?thesis
      by simp
  qed
  ultimately show ?thesis
    using j(4) by blast
qed

subsection \<open>The reference printf\<close>

lemma conforms_reference: "conforms reference_platform"
  by (simp add: conforms_def reference_platform_def)

lemma unescape_literal:
  "c \<noteq> CHR ''%'' \<Longrightarrow> unescape (c # s) = c # unescape s"
  by (cases s) simp_all

lemma printf_std_no_directive:
  "directives f = [] \<Longrightarrow> printf_std f as = Some (unescape (c_string f))"
proof (induction f rule: directives.induct)
  case 1
  then show ?case
    by (simp add: c_string_def)
next
  case (2 c f)
  consider (nul) "c = NUL" | (lit) "c \<noteq> NUL" "c \<noteq> CHR ''%''" | (pct) "c = CHR ''%''"
    by blast
  then show ?case
  proof cases
    case nul
    then show ?thesis
      by (simp add: c_string_Cons)
  next
    case lit
    with "2.prems" have "directives f = []"
      by simp
    with "2.IH"(1) lit show ?thesis
      by (simp add: c_string_Cons unescape_literal)
  next
    case pct
    then have c: "c \<noteq> NUL"
      by (simp add: NUL_def)
    from "2.prems" pct c have p: "peek f = CHR ''%''"
      by (simp split: if_splits)
    then obtain f' where f: "f = CHR ''%'' # f'"
      by (cases f) (simp_all add: NUL_def)
    from "2.prems" pct c f have "directives f' = []"
      by simp
    with "2.IH"(2) pct c f have "printf_std f' as = Some (unescape (c_string f'))"
      by simp
    with pct c f show ?thesis
      by (simp add: c_string_Cons NUL_def)
  qed
qed

lemma unrecognised_anywhere:
  assumes "d \<in> set (directives f)" "directive_kind d = None"
  shows "\<exists>e. check_printf f as = Inl e"
proof -
  from assms(1) obtain i where i: "i < length (directives f)" "directives f ! i = d"
    by (auto simp: in_set_conv_nth)
  show ?thesis
  proof (cases "i < length as")
    case True
    from assms(2) i(2) have "switch_directive (directives f ! i) (canon_type (as ! i)) \<noteq> None"
      by (simp add: unrecognised_rejected)
    from first_rejected [OF i(1) True this] show ?thesis
      by (auto simp: check_printf_directives)
  next
    case False
    with i(1) have "length as < length (directives f)"
      by simp
    from too_few [OF this] show ?thesis
      by (simp add: check_printf_directives)
  qed
qed

subsection \<open>The conversion of a string argument is never tested\<close>

text \<open>C1. The claim: a \<^verbatim>\<open>%s\<close> directive whose argument is not text-like (neither a
  character pointer nor a string) raises a directive/argument mismatch. The code does not
  do that: the test of the \<^verbatim>\<open>'s'\<close> case asks whether \<^verbatim>\<open>char*\<close> and
  \<^verbatim>\<open>std::string\<close> are object types, which they are, whatever the argument. So the
  integer 3 is accepted for \<^verbatim>\<open>%s\<close> and handed to printf.\<close>

theorem string_directive_accepts_integer:
  "category_of (A_integral (I_int 3)) \<noteq> Text \<and>
   safe_printf P ''%s'' [A_integral (I_int 3)] out =
     (Inr (int (length (printf P ''%s'' [C_long 3]))), out @ printf P ''%s'' [C_long 3])"
  by (simp add: safe_printf_def Let_def switch_directive_def NUL_def)

subsection \<open>Arity\<close>

text \<open>C2. The claim: the number of directives (without the \<^verbatim>\<open>%%\<close> escapes) must equal
  the number of arguments, and a call with more directives than arguments or with more
  arguments than directives raises a failure. The code's comments say the same: the
  arguments and the format flags must match up, and each argument passed is checked against
  its format flag. The base case does throw "Bad format" for a directive without an
  argument, but the recursive overload has no throw after its loop: when the format ends
  it returns, whatever is left of the pack. So a call with one argument and no directive
  is accepted and prints its format, while a call with two directives and one argument is
  refused.\<close>

theorem surplus_argument_accepted:
  "length (directives ''hello'') \<noteq> length [A_integral (I_int 3)] \<and>
   safe_printf reference_platform ''hello'' [A_integral (I_int 3)] [] = (Inr 5, ''hello'') \<and>
   length (directives ''%d%d'') \<noteq> length [A_integral (I_int 1)] \<and>
   safe_printf reference_platform ''%d%d'' [A_integral (I_int 1)] [] = (Inl Bad_format, [])"
  by (simp add: safe_printf_def Let_def reference_platform_def switch_directive_def NUL_def)

subsection \<open>A directive whose argument has another category\<close>

text \<open>C3, as claimed: whenever the argument of a \<^verbatim>\<open>%d\<close> directive is not integral, the
  call raises a directive/argument mismatch. The call does raise, but the scan stops at the
  first directive it rejects and reports that one: after an unrecognized \<^verbatim>\<open>%x\<close> the
  condition is "Invalid format character", although the argument of the \<^verbatim>\<open>%d\<close> that
  follows is a string.\<close>

theorem integral_mismatch_after_unrecognized:
  "directives ''%x%d'' ! 1 = CHR ''d'' \<and>
   category_of (A_string ''bar'') \<noteq> Integral \<and>
   safe_printf reference_platform ''%x%d'' [A_string ''foo'', A_string ''bar''] [] =
     (Inl Invalid_format_character, []) \<and>
   \<not> DirectiveArgumentMismatch Invalid_format_character"
  by (simp add: safe_printf_def switch_directive_def NUL_def DirectiveArgumentMismatch_def)

text \<open>C3, as amended: whenever the argument of a \<^verbatim>\<open>%d\<close> directive is not integral, the
  call raises a condition and writes nothing. The condition is a directive/argument
  mismatch when every directive before it is a recognized one, and it is "Parameter is not
  integral" when no directive before it is rejected. In particular the format
  \<^verbatim>\<open>"%d%s%d"\<close> with the string foo, the character pointer "bar" and the int 3 raises
  "Parameter is not integral".\<close>

theorem integral_directive_mismatch:
  "(i < length (directives f) \<and> i < length ts \<and> directives f ! i = CHR ''d'' \<and>
    category_of (ts ! i) \<noteq> Integral \<longrightarrow>
      (\<exists>e. safe_printf P f ts out = (Inl e, out) \<and>
         ((\<forall>j<i. directive_kind (directives f ! j) \<noteq> None) \<longrightarrow> DirectiveArgumentMismatch e) \<and>
         ((\<forall>j<i. \<not> rejects P (directives f ! j) (ts ! j)) \<longrightarrow> e = Parameter_is_not_integral))) \<and>
   safe_printf P ''%d%s%d'' [A_string ''foo'', A_pointer (Ptr_to_chars ''bar''), A_integral (I_int 3)] out =
     (Inl Parameter_is_not_integral, out) \<and>
   DirectiveArgumentMismatch Parameter_is_not_integral"
proof (intro conjI impI)
  assume h: "i < length (directives f) \<and> i < length ts \<and> directives f ! i = CHR ''d'' \<and>
    category_of (ts ! i) \<noteq> Integral"
  then have "rejects P (directives f ! i) (ts ! i)"
    by (simp add: rejects_integral)
  moreover from h have "directive_kind (directives f ! i) \<noteq> None"
    by (simp add: directive_kind_def)
  moreover from h have "e = Parameter_is_not_integral"
    if "switch_directive (directives f ! i) (canon_type (ValidateArgument P (ts ! i))) = Some e" for e
    using that by (simp add: switch_directive_def split: if_splits)
  ultimately show "\<exists>e. safe_printf P f ts out = (Inl e, out) \<and>
         ((\<forall>j<i. directive_kind (directives f ! j) \<noteq> None) \<longrightarrow> DirectiveArgumentMismatch e) \<and>
         ((\<forall>j<i. \<not> rejects P (directives f ! j) (ts ! j)) \<longrightarrow> e = Parameter_is_not_integral)"
    using h by (intro mismatch_call) auto
next
  show "safe_printf P ''%d%s%d'' [A_string ''foo'', A_pointer (Ptr_to_chars ''bar''), A_integral (I_int 3)] out =
     (Inl Parameter_is_not_integral, out)"
    by (simp add: safe_printf_def switch_directive_def NUL_def)
next
  show "DirectiveArgumentMismatch Parameter_is_not_integral"
    by (simp add: DirectiveArgumentMismatch_def)
qed

theorem integral_directive_mismatch_witness:
  "\<exists>e. safe_printf reference_platform ''%s and %d'' [A_integral (I_int 7), A_floating (F_double 2)] ''>'' =
          (Inl e, ''>'') \<and>
        DirectiveArgumentMismatch e \<and> e = Parameter_is_not_integral"
  using integral_directive_mismatch
    [of 1 "''%s and %d''" "[A_integral (I_int 7), A_floating (F_double 2)]" reference_platform "''>''"]
  by (simp add: NUL_def directive_kind_def rejects_def switch_directive_def)

text \<open>C8, as claimed: whenever the argument of a \<^verbatim>\<open>%f\<close> or \<^verbatim>\<open>%g\<close> directive is not
  floating-point, the call raises a directive/argument mismatch. Again the call raises, but
  after an unrecognized \<^verbatim>\<open>%x\<close> the condition is "Invalid format character".\<close>

theorem floating_mismatch_after_unrecognized:
  "directives ''%x%f'' ! 1 = CHR ''f'' \<and>
   category_of (A_string ''bar'') \<noteq> Float \<and>
   safe_printf reference_platform ''%x%f'' [A_string ''foo'', A_string ''bar''] [] =
     (Inl Invalid_format_character, []) \<and>
   \<not> DirectiveArgumentMismatch Invalid_format_character"
  by (simp add: safe_printf_def switch_directive_def NUL_def DirectiveArgumentMismatch_def)

text \<open>C8, as amended: whenever the argument of a \<^verbatim>\<open>%f\<close> or \<^verbatim>\<open>%g\<close> directive is not
  floating-point, the call raises a condition and writes nothing. The condition is a
  directive/argument mismatch when every directive before it is a recognized one, and it is
  "Parameter is not floating point!" when no directive before it is rejected.\<close>

theorem floating_directive_mismatch:
  "i < length (directives f) \<and> i < length ts \<and>
   (directives f ! i = CHR ''f'' \<or> directives f ! i = CHR ''g'') \<and>
   category_of (ts ! i) \<noteq> Float \<longrightarrow>
     (\<exists>e. safe_printf P f ts out = (Inl e, out) \<and>
        ((\<forall>j<i. directive_kind (directives f ! j) \<noteq> None) \<longrightarrow> DirectiveArgumentMismatch e) \<and>
        ((\<forall>j<i. \<not> rejects P (directives f ! j) (ts ! j)) \<longrightarrow> e = Parameter_is_not_floating_point))"
proof (intro impI)
  assume h: "i < length (directives f) \<and> i < length ts \<and>
   (directives f ! i = CHR ''f'' \<or> directives f ! i = CHR ''g'') \<and>
   category_of (ts ! i) \<noteq> Float"
  then have "rejects P (directives f ! i) (ts ! i)"
    by (simp add: rejects_floating)
  moreover from h have "directive_kind (directives f ! i) \<noteq> None"
    by (auto simp: directive_kind_def)
  moreover from h have "e = Parameter_is_not_floating_point"
    if "switch_directive (directives f ! i) (canon_type (ValidateArgument P (ts ! i))) = Some e" for e
    using that by (auto simp: switch_directive_def split: if_splits)
  ultimately show "\<exists>e. safe_printf P f ts out = (Inl e, out) \<and>
        ((\<forall>j<i. directive_kind (directives f ! j) \<noteq> None) \<longrightarrow> DirectiveArgumentMismatch e) \<and>
        ((\<forall>j<i. \<not> rejects P (directives f ! j) (ts ! j)) \<longrightarrow> e = Parameter_is_not_floating_point)"
    using h by (intro mismatch_call) auto
qed

theorem floating_directive_mismatch_witness:
  "\<exists>e. safe_printf reference_platform ''%d%%: %g'' [A_integral (I_int 7), A_integral (I_long 2)] ''>'' =
          (Inl e, ''>'') \<and>
        DirectiveArgumentMismatch e \<and> e = Parameter_is_not_floating_point"
  using floating_directive_mismatch
    [of 1 "''%d%%: %g''" "[A_integral (I_int 7), A_integral (I_long 2)]" reference_platform "''>''"]
  by (simp add: NUL_def directive_kind_def rejects_def switch_directive_def)

subsection \<open>A conversion character that is not recognized\<close>

text \<open>C7, as claimed: a template with a \<^verbatim>\<open>%\<close> followed by a conversion character outside
  f, g, d, s and \<^verbatim>\<open>%\<close> raises the unrecognized-directive condition. The call raises, but
  a directive rejected earlier is reported first: here the string given to \<^verbatim>\<open>%d\<close>
  raises "Parameter is not integral" before \<^verbatim>\<open>%x\<close> is reached.\<close>

theorem unrecognized_after_mismatch:
  "directives ''%d%x'' ! 1 \<notin> {CHR ''f'', CHR ''g'', CHR ''d'', CHR ''s'', CHR ''%''} \<and>
   safe_printf reference_platform ''%d%x'' [A_string ''foo'', A_integral (I_int 1)] [] =
     (Inl Parameter_is_not_integral, []) \<and>
   \<not> UnrecognizedDirective Parameter_is_not_integral"
  by (simp add: safe_printf_def switch_directive_def NUL_def UnrecognizedDirective_def)

text \<open>C7, as amended: a template with a \<^verbatim>\<open>%\<close> followed by a conversion character outside
  f, g, d, s and \<^verbatim>\<open>%\<close> raises a condition and writes nothing. The condition is the
  unrecognized-directive one ("Invalid format character") when the directive has an
  argument and no directive before it is rejected; when the arguments run out at or before
  the directive and none of them is rejected, it is the base case's "Bad format".\<close>

theorem unrecognized_directive:
  "i < length (directives f) \<and>
   directives f ! i \<notin> {CHR ''f'', CHR ''g'', CHR ''d'', CHR ''s'', CHR ''%''} \<longrightarrow>
     (\<exists>e. safe_printf P f ts out = (Inl e, out) \<and>
        (i < length ts \<and> (\<forall>j<i. \<not> rejects P (directives f ! j) (ts ! j)) \<longrightarrow>
           UnrecognizedDirective e) \<and>
        (length ts \<le> i \<and> (\<forall>j<length ts. \<not> rejects P (directives f ! j) (ts ! j)) \<longrightarrow>
           e = Bad_format))"
proof (intro impI)
  assume h: "i < length (directives f) \<and>
   directives f ! i \<notin> {CHR ''f'', CHR ''g'', CHR ''d'', CHR ''s'', CHR ''%''}"
  then have kind: "directive_kind (directives f ! i) = None"
    by (simp add: directive_kind_def)
  show "\<exists>e. safe_printf P f ts out = (Inl e, out) \<and>
        (i < length ts \<and> (\<forall>j<i. \<not> rejects P (directives f ! j) (ts ! j)) \<longrightarrow>
           UnrecognizedDirective e) \<and>
        (length ts \<le> i \<and> (\<forall>j<length ts. \<not> rejects P (directives f ! j) (ts ! j)) \<longrightarrow>
           e = Bad_format)"
  proof (cases "i < length ts")
    case True
    from kind have r: "rejects P (directives f ! i) (ts ! i)"
      by (rule rejects_unrecognised)
    from h have i: "i < length (directives f)" ..
    from rejected_call [OF i True r] obtain j e where j: "j \<le> i"
      "switch_directive (directives f ! j) (canon_type (ValidateArgument P (ts ! j))) = Some e"
      "\<forall>k<j. \<not> rejects P (directives f ! k) (ts ! k)"
      "safe_printf P f ts out = (Inl e, out)"
      by blast
    have "UnrecognizedDirective e" if "\<forall>j<i. \<not> rejects P (directives f ! j) (ts ! j)"
    proof -
      from j(2) have "rejects P (directives f ! j) (ts ! j)"
        by (simp add: rejects_def)
      with that j(1) have "j = i"
        by (cases "j = i") auto
      with j(2) kind show ?thesis
        by (simp add: unrecognised_rejected UnrecognizedDirective_def)
    qed
    with True j(4) show ?thesis
      by auto
  next
    case False
    with h have less: "length ts < length (directives f)"
      by simp
    from too_few_call [OF less] obtain e where e: "safe_printf P f ts out = (Inl e, out)" ..
    have "e = Bad_format" if "\<forall>j<length ts. \<not> rejects P (directives f ! j) (ts ! j)"
      using exhausted_call [OF less that, of out] e by simp
    with False e show ?thesis
      by auto
  qed
qed

theorem unrecognized_directive_witness:
  "(\<exists>e. safe_printf reference_platform ''%s%x'' [A_string ''a'', A_integral (I_int 255)] ''>'' =
          (Inl e, ''>'') \<and> UnrecognizedDirective e) \<and>
   (\<exists>e. safe_printf reference_platform ''%s%x'' [A_string ''a''] ''>'' = (Inl e, ''>'') \<and>
          e = Bad_format)"
  using unrecognized_directive
    [of 1 "''%s%x''" reference_platform "[A_string ''a'', A_integral (I_int 255)]" "''>''"]
    unrecognized_directive [of 1 "''%s%x''" reference_platform "[A_string ''a'']" "''>''"]
  by (simp add: NUL_def rejects_def switch_directive_def)

subsection \<open>A call that throws writes nothing\<close>

text \<open>C4: a call that raises a condition (a mismatch, an unrecognized directive, a directive
  without an argument) produces no output. The condition is the one the check threw, and
  the check has returned before printf is called, so standard output is as it was before
  the call.\<close>

theorem throw_writes_nothing:
  "fst (safe_printf P f ts out) = Inl e \<longrightarrow>
     snd (safe_printf P f ts out) = out \<and> check_printf f (map (ValidateArgument P) ts) = Inl e"
  by (auto simp: safe_printf_def Let_def split: sum.splits)

theorem throw_writes_nothing_witness:
  "fst (safe_printf reference_platform ''so far %d%k'' [A_integral (I_int 3), A_string ''x''] ''abc'') =
     Inl Invalid_format_character \<and>
   snd (safe_printf reference_platform ''so far %d%k'' [A_integral (I_int 3), A_string ''x''] ''abc'') =
     ''abc''"
  using throw_writes_nothing [of reference_platform "''so far %d%k''"
      "[A_integral (I_int 3), A_string ''x'']" "''abc''" Invalid_format_character]
  by (simp add: safe_printf_def switch_directive_def NUL_def)

subsection \<open>A call whose arguments match its directives\<close>

text \<open>C5: when the kinds of the directives of the template are, in order and in number, the
  categories of the arguments, the call raises nothing and writes what the platform's printf
  writes for the same format and the converted arguments (its return value is the length of
  that text). In particular, where printf follows the C standard, the format
  \<^verbatim>\<open>"%s%s%d\n"\<close> with the string foo, the character pointer "bar" and the int 3 writes
  \<^verbatim>\<open>foobar3\<close> and a newline.\<close>

theorem matching_call_prints:
  "(list_all2 matches (directives f) ts \<longrightarrow>
      safe_printf P f ts out =
        (Inr (int (length (printf P f (map (ValidateArgument P) ts)))),
         out @ printf P f (map (ValidateArgument P) ts))) \<and>
   (conforms P \<longrightarrow>
      safe_printf P (''%s%s%d'' @ [CHR 0x0A])
        [A_string ''foo'', A_pointer (Ptr_to_chars ''bar''), A_integral (I_int 3)] out =
        (Inr 8, out @ ''foobar3'' @ [CHR 0x0A]))"
proof (intro conjI impI)
  assume m: "list_all2 matches (directives f) ts"
  then have "length (directives f) \<le> length ts"
    by (simp add: list_all2_lengthD)
  moreover have "\<forall>j<length (directives f). \<not> rejects P (directives f ! j) (ts ! j)"
    using m by (simp add: rejects_def matches_accepted list_all2_nthD)
  ultimately show "safe_printf P f ts out =
        (Inr (int (length (printf P f (map (ValidateArgument P) ts)))),
         out @ printf P f (map (ValidateArgument P) ts))"
    by (rule accepted_call)
next
  let ?f = "''%s%s%d'' @ [CHR 0x0A]"
  let ?ts = "[A_string ''foo'', A_pointer (Ptr_to_chars ''bar''), A_integral (I_int 3)]"
  assume "conforms P"
  moreover have "printf_std ?f (map (ValidateArgument P) ?ts) = Some (''foobar3'' @ [CHR 0x0A])"
    by (simp add: convert_def NUL_def decimal_def)
  ultimately have "printf P ?f (map (ValidateArgument P) ?ts) = ''foobar3'' @ [CHR 0x0A]"
    unfolding conforms_def by blast
  moreover have "check_printf ?f (map (ValidateArgument P) ?ts) = Inr ()"
    by (simp add: switch_directive_def NUL_def)
  ultimately show "safe_printf P ?f ?ts out = (Inr 8, out @ ''foobar3'' @ [CHR 0x0A])"
    by (simp add: safe_printf_def Let_def)
qed

theorem matching_call_prints_witness:
  "list_all2 matches (directives ''%d: %s (%g%%)'')
     [A_integral (I_short 4), A_string ''ok'', A_floating (F_float 50)] \<and>
   conforms reference_platform \<and>
   fst (safe_printf reference_platform ''%d: %s (%g%%)''
     [A_integral (I_short 4), A_string ''ok'', A_floating (F_float 50)] []) =
     Inr (int (length (printf reference_platform ''%d: %s (%g%%)''
       [C_long 4, C_pointer (Ptr_to_chars ''ok''), C_double 50]))) \<and>
   safe_printf reference_platform (''%s%s%d'' @ [CHR 0x0A])
     [A_string ''foo'', A_pointer (Ptr_to_chars ''bar''), A_integral (I_int 3)] [] =
     (Inr 8, ''foobar3'' @ [CHR 0x0A])"
  using matching_call_prints [of "''%d: %s (%g%%)''"
      "[A_integral (I_short 4), A_string ''ok'', A_floating (F_float 50)]" reference_platform "[]"]
    conforms_reference
  by (simp add: NUL_def matches_def directive_kind_def)

text \<open>C6: for a template of literal text and \<^verbatim>\<open>%%\<close> escapes only, a call without
  arguments raises nothing; and where printf follows the C standard, what it writes is the
  template with each \<^verbatim>\<open>%%\<close> replaced by one \<^verbatim>\<open>%\<close>.\<close>

theorem literal_template_prints_unescaped:
  "directives f = [] \<longrightarrow>
     (\<exists>n s. safe_printf P f [] out = (Inr n, s)) \<and>
     (conforms P \<longrightarrow>
        safe_printf P f [] out =
          (Inr (int (length (unescape (c_string f)))), out @ unescape (c_string f)))"
proof (intro impI conjI)
  assume d: "directives f = []"
  then have ok: "check_printf f (map (ValidateArgument P) []) = Inr ()"
    by (simp add: check_printf_nil_directives)
  from safe_printf_prints [OF ok] show "\<exists>n s. safe_printf P f [] out = (Inr n, s)"
    by blast
  assume "conforms P"
  moreover from d have "printf_std f [] = Some (unescape (c_string f))"
    by (rule printf_std_no_directive)
  ultimately have "printf P f [] = unescape (c_string f)"
    unfolding conforms_def by blast
  with safe_printf_prints [OF ok, of out] show
    "safe_printf P f [] out = (Inr (int (length (unescape (c_string f)))), out @ unescape (c_string f))"
    by simp
qed

theorem literal_template_prints_unescaped_witness:
  "directives ''100%% sure'' = [] \<and> conforms reference_platform \<and>
   safe_printf reference_platform ''100%% sure'' [] ''I am '' = (Inr 9, ''I am 100% sure'')"
  using literal_template_prints_unescaped [of "''100%% sure''" reference_platform "''I am ''"]
    conforms_reference
  by (simp add: NUL_def c_string_def)

subsection \<open>A lone percent sign at the end\<close>

text \<open>C9: a template that ends in a single \<^verbatim>\<open>%\<close> that is not part of an escape is never
  accepted. The scan reads the terminator as the conversion character: the base case
  throws "Bad format", the recursive overload falls to the default of its switch. So the
  check raises a condition whatever the arguments are, and so does the call.\<close>

theorem trailing_percent_raises:
  "odd (trailing_percents (c_string f)) \<longrightarrow>
     (\<exists>e. check_printf f as = Inl e) \<and> (\<exists>e. safe_printf P f ts out = (Inl e, out))"
proof (intro impI conjI)
  assume "odd (trailing_percents (c_string f))"
  then have n: "NUL \<in> set (directives f)"
    by (rule dangling)
  have k: "directive_kind NUL = None"
    by (simp add: directive_kind_def NUL_def)
  from unrecognised_anywhere [OF n k] show "\<exists>e. check_printf f as = Inl e" .
  from unrecognised_anywhere [OF n k] obtain e where
    "check_printf f (map (ValidateArgument P) ts) = Inl e" ..
  then have "safe_printf P f ts out = (Inl e, out)"
    by (rule safe_printf_throws)
  then show "\<exists>e. safe_printf P f ts out = (Inl e, out)" ..
qed

theorem trailing_percent_raises_witness:
  "odd (trailing_percents (c_string ''%d%%%'')) \<and>
   (\<exists>e. check_printf ''%d%%%'' [C_long 5] = Inl e) \<and>
   (\<exists>e. safe_printf reference_platform ''%d%%%'' [A_integral (I_int 5), A_integral (I_int 6)] [] = (Inl e, []))"
  using trailing_percent_raises [of "''%d%%%''" "[C_long 5]" reference_platform
      "[A_integral (I_int 5), A_integral (I_int 6)]" "[]"]
  by (simp add: NUL_def c_string_def trailing_percents_def)

subsection \<open>The values ValidateArgument returns\<close>

text \<open>C10, as claimed: every integral argument is returned as a long of the same value,
  every floating-point argument as a double of the same value, every pointer unchanged and a
  string as the pointer to its characters. The first part fails for an unsigned long (or
  unsigned long long) above the largest long: the conversion keeps the 64 bits, and the
  largest unsigned long comes back as -1.\<close>

theorem unsigned_long_changes_value:
  "integral_value (I_unsigned_long 18446744073709551615) = 18446744073709551615 \<and>
   ValidateArgument reference_platform (A_integral (I_unsigned_long 18446744073709551615)) =
     C_long (- 1) \<and>
   sint (- 1 :: 64 word) = - 1"
  by simp

text \<open>C10, as amended: every integral argument whose value is at most the largest long
  (every value of every integral type but the upper half of the two unsigned 64-bit types)
  is returned as a long of the same value, and a larger one as its value minus \<open>2^64\<close>;
  every float and every double argument is returned as a double of the same value (a long
  double is rounded to double by the platform, and nothing is said of it); every pointer is
  returned unchanged, with its own type; every string is returned as the pointer to its
  characters.\<close>

theorem ValidateArgument_value:
  "(integral_value i \<le> 9223372036854775807 \<longrightarrow>
      (\<exists>w. ValidateArgument P (A_integral i) = C_long w \<and> sint w = integral_value i)) \<and>
   (9223372036854775807 < integral_value i \<longrightarrow>
      (\<exists>w. ValidateArgument P (A_integral i) = C_long w \<and>
           sint w = integral_value i - 18446744073709551616)) \<and>
   (floating_type x \<noteq> T_long_double \<longrightarrow>
      ValidateArgument P (A_floating x) = C_double (floating_value x)) \<and>
   ValidateArgument P (A_pointer p) = C_pointer p \<and>
   canon_type (ValidateArgument P (A_pointer p)) = arg_type (A_pointer p) \<and>
   ValidateArgument P (A_string s) = C_pointer (Ptr_to_chars s)"
proof (intro conjI impI)
  assume "integral_value i \<le> 9223372036854775807"
  then show "\<exists>w. ValidateArgument P (A_integral i) = C_long w \<and> sint w = integral_value i"
    by (simp add: to_long_value)
next
  assume "9223372036854775807 < integral_value i"
  then show "\<exists>w. ValidateArgument P (A_integral i) = C_long w \<and>
           sint w = integral_value i - 18446744073709551616"
    by (simp add: to_long_value)
next
  assume "floating_type x \<noteq> T_long_double"
  then show "ValidateArgument P (A_floating x) = C_double (floating_value x)"
    by (cases x) simp_all
qed simp_all

theorem ValidateArgument_value_witness:
  "(\<exists>w. ValidateArgument reference_platform (A_integral (I_unsigned_int 4294967295)) = C_long w \<and>
        sint w = 4294967295) \<and>
   (\<exists>w. ValidateArgument reference_platform (A_integral (I_unsigned_long 9223372036854775808)) = C_long w \<and>
        sint w = - 9223372036854775808) \<and>
   ValidateArgument reference_platform (A_floating (F_float (1 / 2))) = C_double (1 / 2)"
  using ValidateArgument_value [of "I_unsigned_int 4294967295" reference_platform "F_float (1 / 2)"]
    ValidateArgument_value [of "I_unsigned_long 9223372036854775808" reference_platform]
  by simp

end
